theory Spec2Isabelle
  imports Main
begin

section \<open>JavaScript values\<close>

text \<open>
  The handlers receive \<open>req.body\<close> from the platform and JSON documents from the upstream
  services, so the values they touch are \<open>undefined\<close> and the JSON values. \<open>JNative k\<close>
  stands for the built-in value \<open>Object.prototype[k]\<close>, which a member read on an object
  literal can return: a function, or for \<open>__proto__\<close> the prototype object itself. A string
  is the list of its code units, taken from U+0000 to U+00FF (one \<open>char\<close> each). A number is
  an \<open>int\<close>. An object is the list of its own members.
\<close>

datatype jsval =
    JUndefined
  | JNull
  | JBool bool
  | JNum int
  | JStr string
  | JArr "jsval list"
  | JObj "(string \<times> jsval) list"
  | JNative string

datatype js_error = TypeError string | SyntaxError string | Error string

fun message :: "js_error \<Rightarrow> string" where
  "message (TypeError m) = m"
| "message (SyntaxError m) = m"
| "message (Error m) = m"

text \<open>ToBoolean: what \<open>!v\<close>, \<open>a && b\<close> and \<open>a || b\<close> test.\<close>

fun truthy :: "jsval \<Rightarrow> bool" where
  "truthy JUndefined = False"
| "truthy JNull = False"
| "truthy (JBool b) = b"
| "truthy (JNum n) = (n \<noteq> 0)"
| "truthy (JStr s) = (s \<noteq> [])"
| "truthy (JArr xs) = True"
| "truthy (JObj kvs) = True"
| "truthy (JNative k) = True"

subsection \<open>ToString and ToNumber\<close>

fun join :: "string \<Rightarrow> string list \<Rightarrow> string" where
  "join sep [] = []"
| "join sep [x] = x"
| "join sep (x # y # ys) = x @ sep @ join sep (y # ys)"

definition native_text :: "string \<Rightarrow> string" where
  "native_text k =
     (if k = ''__proto__'' then ''[object Object]''
      else ''function '' @ (if k = ''constructor'' then ''Object'' else k) @
           ''() { [native code] }'')"

text \<open>
  ToString, as string concatenation, \<open>encodeURIComponent\<close> and the property key of
  \<open>tagMap[tag]\<close> apply it. The text of a number (\<open>ns\<close>) is a parameter. An object is
  converted by its \<open>toString\<close> method: a JSON object with a \<open>toString\<close> member of its own
  has a value there that cannot be called, and the conversion throws a TypeError; every
  other object inherits the method that gives \<open>[object Object]\<close>. An array joins the texts
  of its elements, \<open>undefined\<close> and \<open>null\<close> giving the empty text.
\<close>

fun to_string :: "(int \<Rightarrow> string) \<Rightarrow> jsval \<Rightarrow> js_error + string"
  and to_strings :: "(int \<Rightarrow> string) \<Rightarrow> jsval list \<Rightarrow> js_error + string list" where
  "to_string ns JUndefined = Inr ''undefined''"
| "to_string ns JNull = Inr ''null''"
| "to_string ns (JBool b) = Inr (if b then ''true'' else ''false'')"
| "to_string ns (JNum n) = Inr (ns n)"
| "to_string ns (JStr s) = Inr s"
| "to_string ns (JArr xs) =
     (case to_strings ns xs of
        Inl e \<Rightarrow> Inl e
      | Inr ss \<Rightarrow> Inr (join '','' ss))"
| "to_string ns (JObj kvs) =
     (if map_of kvs ''toString'' = None then Inr ''[object Object]''
      else Inl (TypeError ''Cannot convert object to primitive value''))"
| "to_string ns (JNative k) = Inr (native_text k)"
| "to_strings ns [] = Inr []"
| "to_strings ns (x # xs) =
     (case (if x = JUndefined \<or> x = JNull then Inr [] else to_string ns x) of
        Inl e \<Rightarrow> Inl e
      | Inr s \<Rightarrow>
          (case to_strings ns xs of
             Inl e \<Rightarrow> Inl e
           | Inr ss \<Rightarrow> Inr (s # ss)))"

text \<open>
  A number is an \<open>int\<close> or \<open>NaN\<close> (\<open>None\<close>). Arithmetic with \<open>NaN\<close> gives \<open>NaN\<close>, and every
  comparison with \<open>NaN\<close> is false. The arithmetic is exact: it is the arithmetic of the
  code as long as every operand and result is a safe integer, and the properties that
  speak of a computed number carry that bound.
\<close>

type_synonym number = "int option"

definition safe_integer :: "int \<Rightarrow> bool" where
  "safe_integer i = (- 9007199254740991 \<le> i \<and> i \<le> 9007199254740991)"

definition num_add :: "number \<Rightarrow> number \<Rightarrow> number" where
  "num_add a b = (case (a, b) of (Some x, Some y) \<Rightarrow> Some (x + y) | _ \<Rightarrow> None)"

definition num_sub :: "number \<Rightarrow> number \<Rightarrow> number" where
  "num_sub a b = (case (a, b) of (Some x, Some y) \<Rightarrow> Some (x - y) | _ \<Rightarrow> None)"

definition num_mul :: "number \<Rightarrow> number \<Rightarrow> number" where
  "num_mul a b = (case (a, b) of (Some x, Some y) \<Rightarrow> Some (x * y) | _ \<Rightarrow> None)"

definition num_lt :: "number \<Rightarrow> number \<Rightarrow> bool" where
  "num_lt a b = (case (a, b) of (Some x, Some y) \<Rightarrow> x < y | _ \<Rightarrow> False)"

text \<open>
  ToNumber, as the operands of \<open>-\<close> are converted. The reading of a string as a number
  (\<open>sn\<close>, StringToNumber) is a parameter. An array is read through its text. An object with
  a \<open>toString\<close> member of its own cannot be converted (TypeError); every other object, and
  every built-in, is \<open>NaN\<close>.
\<close>

fun to_number :: "(int \<Rightarrow> string) \<Rightarrow> (string \<Rightarrow> number) \<Rightarrow> jsval \<Rightarrow> js_error + number" where
  "to_number ns sn JUndefined = Inr None"
| "to_number ns sn JNull = Inr (Some 0)"
| "to_number ns sn (JBool b) = Inr (Some (if b then 1 else 0))"
| "to_number ns sn (JNum n) = Inr (Some n)"
| "to_number ns sn (JStr s) = Inr (sn s)"
| "to_number ns sn (JArr xs) =
     (case to_string ns (JArr xs) of
        Inl e \<Rightarrow> Inl e
      | Inr t \<Rightarrow> Inr (sn t))"
| "to_number ns sn (JObj kvs) =
     (if map_of kvs ''toString'' = None then Inr None
      else Inl (TypeError ''Cannot convert object to primitive value''))"
| "to_number ns sn (JNative k) = Inr None"

subsection \<open>Member reads and the string methods the program calls\<close>

definition object_prototype_keys :: "string list" where
  "object_prototype_keys =
     [''constructor'', ''hasOwnProperty'', ''isPrototypeOf'', ''propertyIsEnumerable'',
      ''toLocaleString'', ''toString'', ''valueOf'', ''__defineGetter__'',
      ''__defineSetter__'', ''__lookupGetter__'', ''__lookupSetter__'', ''__proto__'']"

text \<open>
  \<open>v[k]\<close> and \<open>v.k\<close>. Reading a member of \<open>undefined\<close> or \<open>null\<close> throws a TypeError. An
  object gives its own member, else the member it inherits from \<open>Object.prototype\<close>, else
  \<open>undefined\<close>. On strings, numbers, booleans, arrays and built-ins the program reads only
  the names \<open>email\<close>, \<open>tag\<close>, \<open>data\<close>, \<open>attributes\<close>, \<open>id\<close>, \<open>access_token\<close> and
  \<open>expires_in\<close>, none of which they have.
\<close>

fun get_prop :: "jsval \<Rightarrow> string \<Rightarrow> js_error + jsval" where
  "get_prop JUndefined k =
     Inl (TypeError (''Cannot read properties of undefined (reading '' @ k @ '')''))"
| "get_prop JNull k =
     Inl (TypeError (''Cannot read properties of null (reading '' @ k @ '')''))"
| "get_prop (JObj kvs) k =
     Inr (case map_of kvs k of
            Some v \<Rightarrow> v
          | None \<Rightarrow> if k \<in> set object_prototype_keys then JNative k else JUndefined)"
| "get_prop v k = Inr JUndefined"

fun starts_with :: "string \<Rightarrow> string \<Rightarrow> bool" where
  "starts_with s [] = True"
| "starts_with [] (n # ns) = False"
| "starts_with (c # cs) (n # ns) = (c = n \<and> starts_with cs ns)"

fun str_includes :: "string \<Rightarrow> string \<Rightarrow> bool" where
  "str_includes [] needle = (needle = [])"
| "str_includes (c # cs) needle = (starts_with (c # cs) needle \<or> str_includes cs needle)"

text \<open>
  \<open>v.includes(needle)\<close> for a string \<open>needle\<close>: strings search for a substring, arrays for
  an element equal to the string; no other value has the method, and calling it throws.
\<close>

fun js_includes :: "jsval \<Rightarrow> string \<Rightarrow> js_error + bool" where
  "js_includes (JStr s) needle = Inr (str_includes s needle)"
| "js_includes (JArr xs) needle = Inr (JStr needle \<in> set xs)"
| "js_includes JUndefined needle =
     Inl (TypeError ''Cannot read properties of undefined (reading includes)'')"
| "js_includes JNull needle =
     Inl (TypeError ''Cannot read properties of null (reading includes)'')"
| "js_includes v needle = Inl (TypeError ''includes is not a function'')"

text \<open>
  \<open>String.prototype.toLowerCase\<close> on the code units U+0000 to U+00FF: the letters A to Z,
  and the letters U+00C0 to U+00DE other than the multiplication sign U+00D7, move up by
  32; every other code unit is its own lower case.
\<close>

definition lower_char :: "char \<Rightarrow> char" where
  "lower_char c =
     (let n = (of_char c :: nat)
      in if (65 \<le> n \<and> n \<le> 90) \<or> (192 \<le> n \<and> n \<le> 222 \<and> n \<noteq> 215)
         then char_of (n + 32) else c)"

fun toLowerCase :: "jsval \<Rightarrow> js_error + string" where
  "toLowerCase (JStr s) = Inr (map lower_char s)"
| "toLowerCase JUndefined =
     Inl (TypeError ''Cannot read properties of undefined (reading toLowerCase)'')"
| "toLowerCase JNull =
     Inl (TypeError ''Cannot read properties of null (reading toLowerCase)'')"
| "toLowerCase v = Inl (TypeError ''toLowerCase is not a function'')"

section \<open>The world outside the handlers\<close>

text \<open>
  The configuration read from \<open>process.env\<close>: a variable is a string or unset.
\<close>

record env =
  KAJABI_CLIENT_ID :: "string option"
  KAJABI_CLIENT_SECRET :: "string option"
  KAJABI_SITE_ID :: "string option"
  KAJABI_TAG_ID_CONTRACTOR :: "string option"
  KAJABI_TAG_ID_DIY :: "string option"
  KAJABI_TAG_ID_WAITLIST :: "string option"

definition env_value :: "string option \<Rightarrow> jsval" where
  "env_value v = (case v of None \<Rightarrow> JUndefined | Some s \<Rightarrow> JStr s)"

text \<open>
  One upstream call per \<open>fetch\<close> of the source, with the arguments the code passes:
  the token exchange, the contact search, the contact creation, the tag attachment, and the
  relay's forward to the webhook.
\<close>

datatype request =
    TokenRequest "string option" "string option"
  | SearchRequest "string option" string string
  | CreateRequest "string option" string jsval
  | TagRequest string string jsval
  | WebhookRequest jsval

text \<open>
  \<open>SearchRequest site bearer search\<close> carries the site identifier, the text put after
  \<open>Bearer\<close> and the text given to \<open>encodeURIComponent\<close>; \<open>CreateRequest site bearer email\<close>
  the email as it is serialised into the body; \<open>TagRequest bearer id tagId\<close> the text of the
  contact identifier in the address and the tag identifier as it is serialised.

  What \<open>fetch\<close> resolves to: the status line and the outcome of reading the body
  (\<open>response.text()\<close> can reject).
\<close>

record response =
  status :: nat
  body_text :: "js_error + string"

definition ok :: "response \<Rightarrow> bool" where
  "ok r = (200 \<le> status r \<and> status r \<le> 299)"

text \<open>
  The world answers each upstream call (\<open>Inl\<close>: \<open>fetch\<close> rejects), gives the reading of the
  clock at its n-th \<open>Date.now()\<close>, holds the environment, and provides the readings and
  writings of text that belong to the runtime: \<open>JSON.parse\<close> (\<open>None\<close>: SyntaxError),
  StringToNumber and the text of a number.
\<close>

record world =
  upstream :: "request \<Rightarrow> js_error + response"
  clock :: "nat \<Rightarrow> int"
  env :: env
  JSON_parse :: "string \<Rightarrow> jsval option"
  StringToNumber :: "string \<Rightarrow> number"
  NumberToString :: "int \<Rightarrow> string"

definition js_string :: "world \<Rightarrow> jsval \<Rightarrow> js_error + string" where
  "js_string w v = to_string (NumberToString w) v"

definition js_number :: "world \<Rightarrow> jsval \<Rightarrow> js_error + number" where
  "js_number w v = to_number (NumberToString w) (StringToNumber w) v"

text \<open>
  The module state of \<open>kajabi-tag.js\<close> (\<open>cachedToken\<close>, \<open>tokenExpiresAt\<close>), together with
  the trace of the upstream calls made so far and the number of clock readings taken.
\<close>

record state =
  cachedToken :: jsval
  tokenExpiresAt :: number
  calls :: "request list"
  ticks :: nat

definition initial_state :: state where
  "initial_state = \<lparr>cachedToken = JNull, tokenExpiresAt = Some 0, calls = [], ticks = 0\<rparr>"

subsection \<open>Computations that may throw and change the state\<close>

type_synonym 'a prog = "state \<Rightarrow> (js_error + 'a) \<times> state"

definition ret :: "'a \<Rightarrow> 'a prog" where
  "ret x = (\<lambda>s. (Inr x, s))"

definition throw :: "js_error \<Rightarrow> 'a prog" where
  "throw e = (\<lambda>s. (Inl e, s))"

definition lift :: "js_error + 'a \<Rightarrow> 'a prog" where
  "lift r = (\<lambda>s. (r, s))"

definition bind :: "'a prog \<Rightarrow> ('a \<Rightarrow> 'b prog) \<Rightarrow> 'b prog" where
  "bind m f = (\<lambda>s. case m s of (Inl e, s') \<Rightarrow> (Inl e, s') | (Inr x, s') \<Rightarrow> f x s')"

definition try_catch :: "'a prog \<Rightarrow> (js_error \<Rightarrow> 'a prog) \<Rightarrow> 'a prog" where
  "try_catch m h = (\<lambda>s. case m s of (Inl e, s') \<Rightarrow> h e s' | (Inr x, s') \<Rightarrow> (Inr x, s'))"

definition bindE :: "js_error + 'a \<Rightarrow> ('a \<Rightarrow> js_error + 'b) \<Rightarrow> js_error + 'b" where
  "bindE r f = (case r of Inl e \<Rightarrow> Inl e | Inr x \<Rightarrow> f x)"

definition fetch :: "world \<Rightarrow> request \<Rightarrow> response prog" where
  "fetch w rq = (\<lambda>s. (upstream w rq, s\<lparr>calls := calls s @ [rq]\<rparr>))"

definition date_now :: "world \<Rightarrow> int prog" where
  "date_now w = (\<lambda>s. (Inr (clock w (ticks s)), s\<lparr>ticks := ticks s + 1\<rparr>))"

text \<open>\<open>response.json()\<close>: read the body, then parse it.\<close>

definition json :: "world \<Rightarrow> response \<Rightarrow> js_error + jsval" where
  "json w r =
     bindE (body_text r) (\<lambda>t.
       case JSON_parse w t of
         None \<Rightarrow> Inl (SyntaxError ''Unexpected token in JSON'')
       | Some v \<Rightarrow> Inr v)"

section \<open>The CRM tagger (\<open>api/kajabi-tag.js\<close>)\<close>

definition token_request :: "world \<Rightarrow> request" where
  "token_request w = TokenRequest (KAJABI_CLIENT_ID (env w)) (KAJABI_CLIENT_SECRET (env w))"

definition getAccessToken :: "world \<Rightarrow> jsval prog" where
  "getAccessToken w =
     (\<lambda>s0.
       bind (if truthy (cachedToken s0)
             then bind (date_now w) (\<lambda>now s. (Inr (num_lt (Some now) (tokenExpiresAt s)), s))
             else ret False)
         (\<lambda>valid.
           if valid then (\<lambda>s. (Inr (cachedToken s), s))
           else
             bind (fetch w (token_request w))
               (\<lambda>response.
                 if \<not> ok response then throw (Error ''Failed to get Kajabi access token'')
                 else
                   bind (lift (json w response)) (\<lambda>data.
                   bind (lift (get_prop data ''access_token'')) (\<lambda>tok.
                   bind (\<lambda>s. (Inr (), s\<lparr>cachedToken := tok\<rparr>)) (\<lambda>_.
                   bind (date_now w) (\<lambda>now.
                   bind (lift (get_prop data ''expires_in'')) (\<lambda>expires_in.
                   bind (lift (js_number w expires_in)) (\<lambda>lifetime.
                   bind (\<lambda>s. (Inr (),
                                s\<lparr>tokenExpiresAt :=
                                    num_add (Some now)
                                      (num_mul (num_sub lifetime (Some 300)) (Some 1000))\<rparr>))
                     (\<lambda>_.
                   (\<lambda>s. (Inr (cachedToken s), s))))))))))) s0)"

text \<open>
  The callback of \<open>data.data.find\<close>: the contact's email, lower-cased, strictly equals the
  lower-cased input (the left operand is evaluated first).
\<close>

definition email_matches :: "jsval \<Rightarrow> jsval \<Rightarrow> js_error + bool" where
  "email_matches email contact =
     bindE (get_prop contact ''attributes'') (\<lambda>attributes.
     bindE (get_prop attributes ''email'') (\<lambda>e.
     bindE (toLowerCase e) (\<lambda>l.
     bindE (toLowerCase email) (\<lambda>r. Inr (l = r)))))"

fun find_first :: "(jsval \<Rightarrow> js_error + bool) \<Rightarrow> jsval list \<Rightarrow> js_error + jsval" where
  "find_first p [] = Inr JUndefined"
| "find_first p (x # xs) =
     (case p x of
        Inl e \<Rightarrow> Inl e
      | Inr b \<Rightarrow> if b then Inr x else find_first p xs)"

text \<open>\<open>v.find(p)\<close>: only arrays have the method.\<close>

fun array_find :: "jsval \<Rightarrow> (jsval \<Rightarrow> js_error + bool) \<Rightarrow> js_error + jsval" where
  "array_find (JArr xs) p = find_first p xs"
| "array_find JUndefined p =
     Inl (TypeError ''Cannot read properties of undefined (reading find)'')"
| "array_find JNull p = Inl (TypeError ''Cannot read properties of null (reading find)'')"
| "array_find v p = Inl (TypeError ''find is not a function'')"

text \<open>
  Each of the three calls builds its address and headers before it calls \<open>fetch\<close>:
  \<open>encodeURIComponent(email)\<close>, \<open>'Bearer ' + token\<close> and
  \<open>'.../contacts/' + contactId\<close> convert their operand to a string, in the order of the
  source, and a conversion that throws leaves the call unmade. (\<open>encodeURIComponent\<close>
  itself throws only on a string with a lone surrogate; the strings here hold none.)
\<close>

definition findContactByEmail :: "world \<Rightarrow> jsval \<Rightarrow> jsval \<Rightarrow> jsval prog" where
  "findContactByEmail w token email =
     bind (lift (js_string w email)) (\<lambda>search.
     bind (lift (js_string w token)) (\<lambda>bearer.
     bind (fetch w (SearchRequest (KAJABI_SITE_ID (env w)) bearer search)) (\<lambda>response.
       if \<not> ok response then throw (Error ''Failed to search contacts'')
       else
         bind (lift (json w response)) (\<lambda>data.
         bind (lift (get_prop data ''data'')) (\<lambda>results.
         bind (lift (array_find results (email_matches email))) (\<lambda>match.
         ret (if truthy match then match else JNull)))))))"

definition createContact :: "world \<Rightarrow> jsval \<Rightarrow> jsval \<Rightarrow> jsval prog" where
  "createContact w token email =
     bind (lift (js_string w token)) (\<lambda>bearer.
     bind (fetch w (CreateRequest (KAJABI_SITE_ID (env w)) bearer email)) (\<lambda>response.
       if \<not> ok response
       then bind (lift (body_text response)) (\<lambda>errorBody.
              throw (Error (''Failed to create contact: '' @ errorBody)))
       else lift (json w response)))"

definition addTagToContact :: "world \<Rightarrow> jsval \<Rightarrow> jsval \<Rightarrow> jsval \<Rightarrow> jsval prog" where
  "addTagToContact w token contactId tagId =
     bind (lift (js_string w contactId)) (\<lambda>id.
     bind (lift (js_string w token)) (\<lambda>bearer.
     bind (fetch w (TagRequest bearer id tagId)) (\<lambda>response.
       if \<not> ok response
       then bind (lift (body_text response)) (\<lambda>errorBody.
              throw (Error (''Failed to add tag: '' @ errorBody)))
       else lift (json w response))))"

subsection \<open>Requests and responses of a handler\<close>

record http_request =
  req_method :: string
  req_body :: jsval

datatype sent = Unsent | Ended | Json jsval

record http_res =
  res_status :: nat
  res_headers :: "(string \<times> string) list"
  res_body :: sent

definition fresh_res :: http_res where
  "fresh_res = \<lparr>res_status = 200, res_headers = [], res_body = Unsent\<rparr>"

definition setHeader :: "string \<Rightarrow> string \<Rightarrow> http_res \<Rightarrow> http_res" where
  "setHeader k v res = res\<lparr>res_headers := res_headers res @ [(k, v)]\<rparr>"

definition set_status :: "nat \<Rightarrow> http_res \<Rightarrow> http_res" where
  "set_status n res = res\<lparr>res_status := n\<rparr>"

definition send_json :: "jsval \<Rightarrow> http_res \<Rightarrow> http_res" where
  "send_json v res = res\<lparr>res_body := Json v\<rparr>"

definition send_end :: "http_res \<Rightarrow> http_res" where
  "send_end res = res\<lparr>res_body := Ended\<rparr>"

definition cors :: "http_res \<Rightarrow> http_res" where
  "cors res =
     setHeader ''Access-Control-Allow-Headers'' ''Content-Type''
       (setHeader ''Access-Control-Allow-Methods'' ''POST, OPTIONS''
          (setHeader ''Access-Control-Allow-Origin'' ''*'' res))"

definition fail_body :: "string \<Rightarrow> jsval" where
  "fail_body msg = JObj [(''ok'', JBool False), (''error'', JStr msg)]"

definition tagMap :: "env \<Rightarrow> jsval" where
  "tagMap e =
     JObj [(''contractor'', env_value (KAJABI_TAG_ID_CONTRACTOR e)),
           (''diy'', env_value (KAJABI_TAG_ID_DIY e)),
           (''waitlist'', env_value (KAJABI_TAG_ID_WAITLIST e))]"

text \<open>
  The body of the \<open>try\<close> block. \<open>console.error\<close> in the \<open>catch\<close> block only logs and is left
  out.
\<close>

definition tag_contact :: "world \<Rightarrow> http_request \<Rightarrow> http_res \<Rightarrow> http_res prog" where
  "tag_contact w req res =
     bind (lift (get_prop (req_body req) ''email'')) (\<lambda>email.
     bind (lift (get_prop (req_body req) ''tag'')) (\<lambda>tag.
     bind (if \<not> truthy email then ret True
           else bind (lift (js_includes email ''@'')) (\<lambda>b. ret (\<not> b))) (\<lambda>bad_email.
       if bad_email
       then ret (send_json (fail_body ''Valid email required'') (set_status 400 res))
       else
         bind (lift (js_string w tag)) (\<lambda>key.
         bind (lift (get_prop (tagMap (env w)) key)) (\<lambda>tagId.
           if \<not> truthy tagId
           then ret (send_json
                       (fail_body ''Invalid tag. Must be: contractor, diy, or waitlist'')
                       (set_status 400 res))
           else
             bind (getAccessToken w) (\<lambda>token.
             bind (findContactByEmail w token email) (\<lambda>found.
             bind (if \<not> truthy found
                   then bind (createContact w token email) (\<lambda>created.
                          lift (get_prop created ''data''))
                   else ret found) (\<lambda>contact.
             bind (lift (get_prop contact ''id'')) (\<lambda>contactId.
             bind (addTagToContact w token contactId tagId) (\<lambda>_.
             ret (send_json (JObj [(''ok'', JBool True)]) (set_status 200 res))))))))))))"

definition handler :: "world \<Rightarrow> http_request \<Rightarrow> http_res prog" where
  "handler w req =
     (if req_method req \<noteq> ''POST''
      then ret (send_json (fail_body ''Method not allowed'') (set_status 405 fresh_res))
      else
        let res = cors fresh_res in
        if req_method req = ''OPTIONS'' then ret (send_end (set_status 200 res))
        else
          try_catch (tag_contact w req res) (\<lambda>error.
            ret (send_json (fail_body ''Server error'') (set_status 500 res))))"

section \<open>The webhook relay\<close>

text \<open>
  The relay file holds two variants of the handler. The original tests the method before it
  sets the CORS headers; the variant marked FIXED sets the headers first and tests for
  \<open>OPTIONS\<close> before \<open>POST\<close>. \<open>console.error\<close> only logs and is left out;
  \<open>JSON.stringify(req.body)\<close> is carried as the body it serialises.
\<close>

definition relay_handler :: "world \<Rightarrow> http_request \<Rightarrow> http_res prog" where
  "relay_handler w req =
     (if req_method req \<noteq> ''POST''
      then ret (send_json (JObj [(''error'', JStr ''Method not allowed'')])
                  (set_status 405 fresh_res))
      else
        let res = cors fresh_res in
        if req_method req = ''OPTIONS'' then ret (send_end (set_status 200 res))
        else
          try_catch
            (bind (fetch w (WebhookRequest (req_body req))) (\<lambda>response.
             bind (lift (body_text response)) (\<lambda>data.
               let responseData =
                     (case JSON_parse w data of
                        Some v \<Rightarrow> v
                      | None \<Rightarrow> JObj [(''message'', JStr data)])
               in ret (send_json responseData (set_status 200 res)))))
            (\<lambda>error.
               ret (send_json
                      (JObj [(''error'', JStr ''Failed to connect to Make.com''),
                             (''details'', JStr (message error))])
                      (set_status 500 res))))"

definition relay_handler_fixed :: "world \<Rightarrow> http_request \<Rightarrow> http_res prog" where
  "relay_handler_fixed w req =
     (let res = cors fresh_res in
      if req_method req = ''OPTIONS'' then ret (send_end (set_status 200 res))
      else if req_method req \<noteq> ''POST''
      then ret (send_json (JObj [(''error'', JStr ''Method not allowed'')])
                  (set_status 405 res))
      else
        try_catch
          (bind (fetch w (WebhookRequest (req_body req))) (\<lambda>response.
           bind (lift (body_text response)) (\<lambda>data.
             let responseData =
                   (case JSON_parse w data of
                      Some v \<Rightarrow> v
                    | None \<Rightarrow> JObj [(''message'', JStr data)])
             in ret (send_json responseData (set_status 200 res)))))
          (\<lambda>error.
             ret (send_json
                    (JObj [(''error'', JStr ''Failed to connect to Make.com''),
                           (''details'', JStr (message error))])
                    (set_status 500 res))))"

section \<open>Notions used to state the properties\<close>

text \<open>
  The test at the head of \<open>getAccessToken\<close>: the slot holds a truthy token and the clock
  reading taken for the test lies before the stored expiry.
\<close>

definition cache_valid :: "world \<Rightarrow> state \<Rightarrow> bool" where
  "cache_valid w s =
     (truthy (cachedToken s) \<and> num_lt (Some (clock w (ticks s))) (tokenExpiresAt s))"

text \<open>The upstream calls a computation adds to the trace.\<close>

definition calls_made :: "'a prog \<Rightarrow> state \<Rightarrow> request list" where
  "calls_made p s = drop (length (calls s)) (calls (snd (p s)))"

definition cors_headers :: "(string \<times> string) list" where
  "cors_headers =
     [(''Access-Control-Allow-Origin'', ''*''),
      (''Access-Control-Allow-Methods'', ''POST, OPTIONS''),
      (''Access-Control-Allow-Headers'', ''Content-Type'')]"

definition method_not_allowed :: http_res where
  "method_not_allowed =
     \<lparr>res_status = 405, res_headers = [],
      res_body = Json (JObj [(''error'', JStr ''Method not allowed'')])\<rparr>"

definition server_error :: http_res where
  "server_error =
     \<lparr>res_status = 500, res_headers = cors_headers,
      res_body = Json (JObj [(''ok'', JBool False), (''error'', JStr ''Server error'')])\<rparr>"

definition tagged_ok :: http_res where
  "tagged_ok =
     \<lparr>res_status = 200, res_headers = cors_headers,
      res_body = Json (JObj [(''ok'', JBool True)])\<rparr>"

definition email_required :: http_res where
  "email_required =
     \<lparr>res_status = 400, res_headers = cors_headers,
      res_body = Json (JObj [(''ok'', JBool False), (''error'', JStr ''Valid email required'')])\<rparr>"

definition invalid_tag :: http_res where
  "invalid_tag =
     \<lparr>res_status = 400, res_headers = cors_headers,
      res_body = Json (JObj [(''ok'', JBool False),
        (''error'', JStr ''Invalid tag. Must be: contractor, diy, or waitlist'')])\<rparr>"

text \<open>
  A POST request passes input validation with email \<open>email\<close> and tag identifier \<open>tagId\<close>:
  the body has members to read, the email is truthy and includes \<open>@\<close>, the tag converts to
  a property key, and the tag map gives a truthy identifier for that key.
\<close>

definition valid_input :: "world \<Rightarrow> http_request \<Rightarrow> jsval \<Rightarrow> jsval \<Rightarrow> bool" where
  "valid_input w req email tagId =
     (req_method req = ''POST'' \<and> get_prop (req_body req) ''email'' = Inr email \<and>
      truthy email \<and> js_includes email ''@'' = Inr True \<and>
      (case get_prop (req_body req) ''tag'' of
         Inl e \<Rightarrow> False
       | Inr tag \<Rightarrow>
           (case js_string w tag of
              Inl e \<Rightarrow> False
            | Inr key \<Rightarrow> get_prop (tagMap (env w)) key = Inr tagId)) \<and>
      truthy tagId)"

text \<open>
  The four steps of the tagging handler, and the first of them that fails. Contact creation
  includes reading the created contact out of the answer (\<open>created.data\<close>); tag attachment
  includes reading the contact's \<open>id\<close>.
\<close>

datatype step = TokenStep | SearchStep | CreateStep | TagStep

definition first_failure :: "world \<Rightarrow> jsval \<Rightarrow> jsval \<Rightarrow> state \<Rightarrow> step option" where
  "first_failure w email tagId s =
     (case getAccessToken w s of
        (Inl e, s1) \<Rightarrow> Some TokenStep
      | (Inr token, s1) \<Rightarrow>
          (case findContactByEmail w token email s1 of
             (Inl e, s2) \<Rightarrow> Some SearchStep
           | (Inr found, s2) \<Rightarrow>
               (case (if truthy found then ret found
                      else bind (createContact w token email) (\<lambda>created.
                             lift (get_prop created ''data''))) s2 of
                  (Inl e, s3) \<Rightarrow> Some CreateStep
                | (Inr contact, s3) \<Rightarrow>
                    (case bind (lift (get_prop contact ''id'')) (\<lambda>contactId.
                            addTagToContact w token contactId tagId) s3 of
                       (Inl e, s4) \<Rightarrow> Some TagStep
                     | (Inr r, s4) \<Rightarrow> None))))"


text \<open>
  The error of a token exchange that fails: the rejection of \<open>fetch\<close>, the error for a
  status that is not ok, or the rejection of \<open>response.json()\<close> (the body cannot be read,
  or is not JSON). \<open>None\<close> when the exchange delivers a document.
\<close>

definition exchange_error :: "world \<Rightarrow> js_error + response \<Rightarrow> js_error option" where
  "exchange_error w a =
     (case a of
        Inl e \<Rightarrow> Some e
      | Inr r \<Rightarrow>
          if \<not> ok r then Some (Error ''Failed to get Kajabi access token'')
          else (case json w r of Inl e \<Rightarrow> Some e | Inr data \<Rightarrow> None))"

text \<open>
  The email of a returned contact (\<open>contact.attributes.email\<close>, when it is a string); the
  exact case-insensitive comparison of the input email with a contact; whether the
  comparison can be made at all (both sides are strings); and the contacts of a result set
  that come before the first exact match.
\<close>

definition contact_email :: "jsval \<Rightarrow> string option" where
  "contact_email c =
     (case get_prop c ''attributes'' of
        Inl e \<Rightarrow> None
      | Inr a \<Rightarrow> (case get_prop a ''email'' of Inr (JStr e) \<Rightarrow> Some e | _ \<Rightarrow> None))"

definition exact_match :: "jsval \<Rightarrow> jsval \<Rightarrow> bool" where
  "exact_match email c =
     (case email of
        JStr e \<Rightarrow>
          (case contact_email c of
             None \<Rightarrow> False
           | Some e' \<Rightarrow> map lower_char e' = map lower_char e)
      | _ \<Rightarrow> False)"

definition comparable :: "jsval \<Rightarrow> jsval \<Rightarrow> bool" where
  "comparable email c =
     (case email of JStr e \<Rightarrow> contact_email c \<noteq> None | _ \<Rightarrow> False)"

definition before_match :: "jsval \<Rightarrow> jsval list \<Rightarrow> jsval list" where
  "before_match email cs = takeWhile (\<lambda>c. \<not> exact_match email c) cs"

text \<open>
  The email member contains \<open>@\<close>: as a character of a string, or as an element of an
  array. No other value contains it.
\<close>

fun contains_at :: "jsval \<Rightarrow> bool" where
  "contains_at (JStr s) = (CHR ''@'' \<in> set s)"
| "contains_at (JArr xs) = (JStr ''@'' \<in> set xs)"
| "contains_at v = False"

fun has_includes :: "jsval \<Rightarrow> bool" where
  "has_includes (JStr s) = True"
| "has_includes (JArr xs) = True"
| "has_includes v = False"

text \<open>The two answers of the relay to a POST request.\<close>

definition relayed :: "jsval \<Rightarrow> http_res" where
  "relayed v = \<lparr>res_status = 200, res_headers = cors_headers, res_body = Json v\<rparr>"

definition relay_failed :: "string \<Rightarrow> http_res" where
  "relay_failed details =
     \<lparr>res_status = 500, res_headers = cors_headers,
      res_body = Json (JObj [(''error'', JStr ''Failed to connect to Make.com''),
                             (''details'', JStr details)])\<rparr>"

section \<open>A concrete world\<close>

text \<open>
  A configuration, four upstream documents and the texts that \<open>JSON.parse\<close> reads them
  from. The search answers with one contact, \<open>anne@x.com\<close>; the answers of the token
  exchange, of the tag attachment and of the webhook are parameters.
\<close>

definition demo_env :: env where
  "demo_env =
     \<lparr>KAJABI_CLIENT_ID = Some ''id'', KAJABI_CLIENT_SECRET = Some ''secret'',
      KAJABI_SITE_ID = Some ''site'', KAJABI_TAG_ID_CONTRACTOR = Some ''101'',
      KAJABI_TAG_ID_DIY = Some ''102'', KAJABI_TAG_ID_WAITLIST = Some ''103''\<rparr>"

definition token_text :: string where
  \<open>token_text = ''{"access_token":"abc","expires_in":7200}''\<close>

definition token_doc :: jsval where
  "token_doc = JObj [(''access_token'', JStr ''abc''), (''expires_in'', JNum 7200)]"

definition anne :: jsval where
  "anne = JObj [(''id'', JStr ''c1''), (''attributes'', JObj [(''email'', JStr ''anne@x.com'')])]"

definition search_text :: string where
  \<open>search_text = ''{"data":[{"id":"c1","attributes":{"email":"anne@x.com"}}]}''\<close>

definition search_doc :: jsval where
  "search_doc = JObj [(''data'', JArr [anne])]"

definition created_text :: string where
  \<open>created_text = ''{"data":{"id":"c2","attributes":{"email":"anne2@x.com"}}}''\<close>

definition created_doc :: jsval where
  "created_doc =
     JObj [(''data'',
            JObj [(''id'', JStr ''c2''), (''attributes'', JObj [(''email'', JStr ''anne2@x.com'')])])]"

definition tags_text :: string where
  \<open>tags_text = ''{"data":[]}''\<close>

definition tags_doc :: jsval where
  "tags_doc = JObj [(''data'', JArr [])]"

definition nobody :: jsval where
  "nobody = JObj [(''id'', JStr ''c0''), (''attributes'', JObj [(''email'', JNull)])]"

definition nobody_text :: string where
  \<open>nobody_text = ''{"data":[{"id":"c0","attributes":{"email":null}}]}''\<close>

definition nobody_doc :: jsval where
  "nobody_doc = JObj [(''data'', JArr [nobody])]"

text \<open>
  The concrete world writes a number in decimal digits, and reads the empty string as 0,
  an optionally signed run of decimal digits as its value and every other string as
  \<open>NaN\<close>. None of the examples converts a number beyond the safe integers or reads a
  number from a string.
\<close>

fun nat_to_dec :: "nat \<Rightarrow> string" where
  "nat_to_dec n =
     (if n < 10 then [char_of (48 + n)]
      else nat_to_dec (n div 10) @ [char_of (48 + n mod 10)])"

definition int_to_dec :: "int \<Rightarrow> string" where
  "int_to_dec i = (if i < 0 then CHR ''-'' # nat_to_dec (nat (- i)) else nat_to_dec (nat i))"

definition is_digit :: "char \<Rightarrow> bool" where
  "is_digit c = (48 \<le> (of_char c :: nat) \<and> (of_char c :: nat) \<le> 57)"

definition digits_value :: "string \<Rightarrow> number" where
  "digits_value ds =
     (if ds \<noteq> [] \<and> list_all is_digit ds
      then Some (foldl (\<lambda>acc c. 10 * acc + (int (of_char c) - 48)) 0 ds)
      else None)"

definition str_to_number :: "string \<Rightarrow> number" where
  "str_to_number s =
     (case s of
        [] \<Rightarrow> Some 0
      | c # cs \<Rightarrow>
          if c = CHR ''-'' then map_option uminus (digits_value cs)
          else if c = CHR ''+'' then digits_value cs
          else digits_value s)"

definition demo_parse :: "string \<Rightarrow> jsval option" where
  "demo_parse =
     map_of [(token_text, token_doc), (search_text, search_doc), (created_text, created_doc),
             (tags_text, tags_doc), (nobody_text, nobody_doc)]"

definition answer :: "nat \<Rightarrow> string \<Rightarrow> js_error + response" where
  "answer st t = Inr \<lparr>status = st, body_text = Inr t\<rparr>"

text \<open>
  \<open>staged_world\<close> takes the answer of each of the five upstream calls; \<open>demo_world\<close> fixes
  the answers of the search and of the creation.
\<close>

definition staged_upstream ::
  "(js_error + response) \<Rightarrow> (js_error + response) \<Rightarrow> (js_error + response) \<Rightarrow>
   (js_error + response) \<Rightarrow> (js_error + response) \<Rightarrow> request \<Rightarrow> js_error + response" where
  "staged_upstream token_answer search_answer create_answer tag_answer hook_answer rq =
     (case rq of
        TokenRequest client secret \<Rightarrow> token_answer
      | SearchRequest site bearer search \<Rightarrow> search_answer
      | CreateRequest site bearer email \<Rightarrow> create_answer
      | TagRequest bearer contactId tagId \<Rightarrow> tag_answer
      | WebhookRequest b \<Rightarrow> hook_answer)"

definition staged_world ::
  "(js_error + response) \<Rightarrow> (js_error + response) \<Rightarrow> (js_error + response) \<Rightarrow>
   (js_error + response) \<Rightarrow> (js_error + response) \<Rightarrow> world" where
  "staged_world token_answer search_answer create_answer tag_answer hook_answer =
     \<lparr>upstream = staged_upstream token_answer search_answer create_answer tag_answer hook_answer,
      clock = (\<lambda>n. 1000000 + int n),
      env = demo_env,
      JSON_parse = demo_parse,
      StringToNumber = str_to_number,
      NumberToString = int_to_dec\<rparr>"

definition demo_world ::
  "(js_error + response) \<Rightarrow> (js_error + response) \<Rightarrow> (js_error + response) \<Rightarrow> world" where
  "demo_world token_answer tag_answer hook_answer =
     staged_world token_answer (answer 200 search_text) (answer 201 created_text) tag_answer
       hook_answer"

definition happy_world :: world where
  "happy_world = demo_world (answer 200 token_text) (answer 200 tags_text) (answer 500 ''OK'')"

definition post :: "jsval \<Rightarrow> http_request" where
  "post b = \<lparr>req_method = ''POST'', req_body = b\<rparr>"

definition tag_body :: "jsval \<Rightarrow> jsval \<Rightarrow> jsval" where
  "tag_body email tag = JObj [(''email'', email), (''tag'', tag)]"

text \<open>
  The state after a first token acquisition in \<open>happy_world\<close>, and the same state with an
  expiry that has passed.
\<close>

definition warm_state :: state where
  "warm_state =
     \<lparr>cachedToken = JStr ''abc'', tokenExpiresAt = Some 7900000,
      calls = [TokenRequest (Some ''id'') (Some ''secret'')], ticks = 1\<rparr>"

definition stale_state :: state where
  "stale_state = warm_state\<lparr>tokenExpiresAt := Some 1000000\<rparr>"


section \<open>Properties\<close>

lemmas prog_defs = ret_def throw_def lift_def bind_def try_catch_def bindE_def fetch_def date_now_def

lemmas res_defs =
  fresh_res_def cors_def setHeader_def set_status_def send_json_def send_end_def fail_body_def

lemmas out_defs =
  cors_headers_def server_error_def tagged_ok_def email_required_def invalid_tag_def
  method_not_allowed_def

lemmas num_defs = num_add_def num_sub_def num_mul_def num_lt_def

lemmas demo_defs =
  demo_env_def token_text_def token_doc_def anne_def search_text_def search_doc_def
  created_text_def created_doc_def tags_text_def tags_doc_def nobody_def nobody_text_def
  nobody_doc_def demo_parse_def answer_def staged_upstream_def staged_world_def
  demo_world_def happy_world_def post_def tag_body_def warm_state_def stale_state_def
  initial_state_def

subsection \<open>The token cache\<close>

lemma getAccessToken_hit:
  assumes "cache_valid w s"
  shows "getAccessToken w s = (Inr (cachedToken s), s\<lparr>ticks := ticks s + 1\<rparr>)"
  using assms by (simp add: getAccessToken_def cache_valid_def prog_defs)

lemma getAccessToken_miss_calls:
  assumes "\<not> cache_valid w s"
  shows "calls (snd (getAccessToken w s)) = calls s @ [token_request w]"
  using assms by (auto simp: getAccessToken_def cache_valid_def prog_defs split: sum.splits)

lemma getAccessToken_refresh:
  assumes "\<not> cache_valid w s" and "upstream w (token_request w) = Inr r" and "ok r"
    and "json w r = Inr data" and "get_prop data ''access_token'' = Inr tok"
    and "get_prop data ''expires_in'' = Inr (JNum n)"
  shows "getAccessToken w s =
     (Inr tok,
      s\<lparr>cachedToken := tok,
        tokenExpiresAt :=
          Some (clock w (ticks s + (if truthy (cachedToken s) then 1 else 0)) + (n - 300) * 1000),
        calls := calls s @ [token_request w],
        ticks := ticks s + (if truthy (cachedToken s) then 1 else 0) + 1\<rparr>)"
  using assms
  by (auto simp: getAccessToken_def cache_valid_def js_number_def prog_defs num_defs)

text \<open>
  C1. When the slot holds a token (a truthy value) and the clock reading lies before the
  stored expiry, \<open>getAccessToken\<close> returns the cached token, changes neither slot and makes
  no upstream call. In every other state it makes exactly one upstream call, the token
  exchange. When that exchange answers with an ok status and a document whose
  \<open>access_token\<close> is \<open>tok\<close> and whose \<open>expires_in\<close> is the number \<open>n\<close> (seconds), the
  call returns \<open>tok\<close>, stores it, and stores as expiry the clock reading taken after the
  exchange plus \<open>(n - 300) * 1000\<close> milliseconds. The stored expiry is stated for
  lifetimes and clock readings that keep every value of the computation a safe integer,
  where the arithmetic of the code is exact.
\<close>

theorem token_cache:
  "(cache_valid w s \<longrightarrow>
      fst (getAccessToken w s) = Inr (cachedToken s) \<and>
      cachedToken (snd (getAccessToken w s)) = cachedToken s \<and>
      tokenExpiresAt (snd (getAccessToken w s)) = tokenExpiresAt s \<and>
      calls_made (getAccessToken w) s = []) \<and>
   (\<not> cache_valid w s \<longrightarrow> calls_made (getAccessToken w) s = [token_request w]) \<and>
   (\<not> cache_valid w s \<and> upstream w (token_request w) = Inr r \<and> ok r \<and>
    json w r = Inr data \<and> get_prop data ''access_token'' = Inr tok \<and>
    get_prop data ''expires_in'' = Inr (JNum n) \<and>
    now = clock w (ticks s + (if truthy (cachedToken s) then 1 else 0)) \<and>
    safe_integer n \<and> safe_integer (n - 300) \<and> safe_integer ((n - 300) * 1000) \<and>
    safe_integer now \<and> safe_integer (now + (n - 300) * 1000) \<longrightarrow>
      fst (getAccessToken w s) = Inr tok \<and>
      cachedToken (snd (getAccessToken w s)) = tok \<and>
      tokenExpiresAt (snd (getAccessToken w s)) = Some (now + (n - 300) * 1000))"
proof (intro conjI impI)
  assume "cache_valid w s"
  then have h: "getAccessToken w s = (Inr (cachedToken s), s\<lparr>ticks := ticks s + 1\<rparr>)"
    by (rule getAccessToken_hit)
  show "fst (getAccessToken w s) = Inr (cachedToken s)" by (simp add: h)
  show "cachedToken (snd (getAccessToken w s)) = cachedToken s" by (simp add: h)
  show "tokenExpiresAt (snd (getAccessToken w s)) = tokenExpiresAt s" by (simp add: h)
  show "calls_made (getAccessToken w) s = []" by (simp add: h calls_made_def)
next
  assume "\<not> cache_valid w s"
  then show "calls_made (getAccessToken w) s = [token_request w]"
    by (simp add: calls_made_def getAccessToken_miss_calls)
next
  assume a: "\<not> cache_valid w s \<and> upstream w (token_request w) = Inr r \<and> ok r \<and>
    json w r = Inr data \<and> get_prop data ''access_token'' = Inr tok \<and>
    get_prop data ''expires_in'' = Inr (JNum n) \<and>
    now = clock w (ticks s + (if truthy (cachedToken s) then 1 else 0)) \<and>
    safe_integer n \<and> safe_integer (n - 300) \<and> safe_integer ((n - 300) * 1000) \<and>
    safe_integer now \<and> safe_integer (now + (n - 300) * 1000)"
  then have h: "getAccessToken w s =
     (Inr tok,
      s\<lparr>cachedToken := tok,
        tokenExpiresAt :=
          Some (clock w (ticks s + (if truthy (cachedToken s) then 1 else 0)) + (n - 300) * 1000),
        calls := calls s @ [token_request w],
        ticks := ticks s + (if truthy (cachedToken s) then 1 else 0) + 1\<rparr>)"
    using getAccessToken_refresh [of w s r data tok n] by blast
  have n: "now = clock w (ticks s + (if truthy (cachedToken s) then 1 else 0))"
    using a by blast
  show "fst (getAccessToken w s) = Inr tok" by (simp add: h)
  show "cachedToken (snd (getAccessToken w s)) = tok" by (simp add: h)
  show "tokenExpiresAt (snd (getAccessToken w s)) = Some (now + (n - 300) * 1000)"
    by (simp add: h n)
qed

theorem token_cache_witness:
  "cache_valid happy_world warm_state \<and>
   fst (getAccessToken happy_world warm_state) = Inr (JStr ''abc'') \<and>
   calls_made (getAccessToken happy_world) warm_state = [] \<and>
   \<not> cache_valid happy_world stale_state \<and>
   calls_made (getAccessToken happy_world) stale_state =
     [TokenRequest (Some ''id'') (Some ''secret'')] \<and>
   upstream happy_world (token_request happy_world) = answer 200 token_text \<and>
   safe_integer 7200 \<and> safe_integer ((7200 - 300) * 1000) \<and> safe_integer 1000002 \<and>
   safe_integer (1000002 + (7200 - 300) * 1000) \<and>
   fst (getAccessToken happy_world stale_state) = Inr (JStr ''abc'') \<and>
   tokenExpiresAt (snd (getAccessToken happy_world stale_state)) = Some (1000002 + (7200 - 300) * 1000)"
proof -
  have v: "cache_valid happy_world warm_state"
    by (simp add: cache_valid_def demo_defs num_defs)
  have nv: "\<not> cache_valid happy_world stale_state"
    by (simp add: cache_valid_def demo_defs num_defs)
  have u: "upstream happy_world (token_request happy_world) =
      Inr \<lparr>status = 200, body_text = Inr token_text\<rparr>"
    by (simp add: token_request_def demo_defs)
  have k: "ok \<lparr>status = 200, body_text = Inr token_text\<rparr>" by (simp add: ok_def)
  have j: "json happy_world \<lparr>status = 200, body_text = Inr token_text\<rparr> = Inr token_doc"
    by (simp add: json_def bindE_def demo_defs)
  have a: "get_prop token_doc ''access_token'' = Inr (JStr ''abc'')"
    by (simp add: token_doc_def)
  have e: "get_prop token_doc ''expires_in'' = Inr (JNum 7200)"
    by (simp add: token_doc_def)
  have t: "token_request happy_world = TokenRequest (Some ''id'') (Some ''secret'')"
    by (simp add: token_request_def demo_defs)
  have c: "clock happy_world (ticks stale_state + (if truthy (cachedToken stale_state) then 1 else 0)) = 1000002"
    by (simp add: demo_defs)
  have w: "cachedToken warm_state = JStr ''abc''" by (simp add: warm_state_def)
  have s: "safe_integer 7200" "safe_integer (7200 - 300)" "safe_integer ((7200 - 300) * 1000)"
    "safe_integer 1000002" "safe_integer (1000002 + (7200 - 300) * 1000)"
    by (simp_all add: safe_integer_def)
  show ?thesis
    using token_cache [where w = happy_world and s = warm_state]
      token_cache [where w = happy_world and s = stale_state and
        r = "\<lparr>status = 200, body_text = Inr token_text\<rparr>" and data = token_doc and
        tok = "JStr ''abc''" and n = 7200 and now = 1000002]
      v nv u k j a e t c w s
    by (simp add: answer_def)
qed

text \<open>
  C9. When a token exchange is made and fails, because \<open>fetch\<close> rejects, because the
  answer's status is not ok, or because reading the answer as JSON rejects,
  \<open>getAccessToken\<close> throws (the rejection itself, or
  "Failed to get Kajabi access token") and both slots of the cache keep their values.
\<close>

theorem token_failure_keeps_cache:
  assumes "\<not> cache_valid w s"
    and "exchange_error w (upstream w (token_request w)) = Some e"
  shows "fst (getAccessToken w s) = Inl e \<and>
         cachedToken (snd (getAccessToken w s)) = cachedToken s \<and>
         tokenExpiresAt (snd (getAccessToken w s)) = tokenExpiresAt s"
  using assms
  by (auto simp: getAccessToken_def cache_valid_def exchange_error_def prog_defs
      split: sum.splits if_splits)

theorem token_failure_keeps_cache_witness:
  "\<not> cache_valid (demo_world (Inl (Error ''ECONNRESET'')) (answer 200 tags_text) (answer 200 ''OK'')) stale_state \<and>
   fst (getAccessToken (demo_world (Inl (Error ''ECONNRESET'')) (answer 200 tags_text) (answer 200 ''OK'')) stale_state)
     = Inl (Error ''ECONNRESET'') \<and>
   cachedToken (snd (getAccessToken (demo_world (Inl (Error ''ECONNRESET'')) (answer 200 tags_text) (answer 200 ''OK'')) stale_state))
     = JStr ''abc'' \<and>
   tokenExpiresAt (snd (getAccessToken (demo_world (Inl (Error ''ECONNRESET'')) (answer 200 tags_text) (answer 200 ''OK'')) stale_state))
     = Some 1000000 \<and>
   \<not> ok \<lparr>status = 401, body_text = Inr ''denied''\<rparr> \<and>
   fst (getAccessToken (demo_world (answer 401 ''denied'') (answer 200 tags_text) (answer 200 ''OK'')) initial_state)
     = Inl (Error ''Failed to get Kajabi access token'') \<and>
   cachedToken (snd (getAccessToken (demo_world (answer 401 ''denied'') (answer 200 tags_text) (answer 200 ''OK'')) initial_state))
     = JNull \<and>
   tokenExpiresAt (snd (getAccessToken (demo_world (answer 401 ''denied'') (answer 200 tags_text) (answer 200 ''OK'')) initial_state))
     = Some 0 \<and>
   ok \<lparr>status = 200, body_text = Inl (Error ''socket hang up'')\<rparr> \<and>
   fst (getAccessToken (demo_world (Inr \<lparr>status = 200, body_text = Inl (Error ''socket hang up'')\<rparr>)
          (answer 200 tags_text) (answer 200 ''OK'')) stale_state)
     = Inl (Error ''socket hang up'') \<and>
   cachedToken (snd (getAccessToken (demo_world (Inr \<lparr>status = 200, body_text = Inl (Error ''socket hang up'')\<rparr>)
          (answer 200 tags_text) (answer 200 ''OK'')) stale_state))
     = JStr ''abc'' \<and>
   tokenExpiresAt (snd (getAccessToken (demo_world (Inr \<lparr>status = 200, body_text = Inl (Error ''socket hang up'')\<rparr>)
          (answer 200 tags_text) (answer 200 ''OK'')) stale_state))
     = Some 1000000"
proof -
  let ?w1 = "demo_world (Inl (Error ''ECONNRESET'')) (answer 200 tags_text) (answer 200 ''OK'')"
  let ?w2 = "demo_world (answer 401 ''denied'') (answer 200 tags_text) (answer 200 ''OK'')"
  let ?w3 = "demo_world (Inr \<lparr>status = 200, body_text = Inl (Error ''socket hang up'')\<rparr>)
          (answer 200 tags_text) (answer 200 ''OK'')"
  have n1: "\<not> cache_valid ?w1 stale_state" by (simp add: cache_valid_def demo_defs num_defs)
  have n2: "\<not> cache_valid ?w2 initial_state" by (simp add: cache_valid_def demo_defs num_defs)
  have n3: "\<not> cache_valid ?w3 stale_state" by (simp add: cache_valid_def demo_defs num_defs)
  have u1: "exchange_error ?w1 (upstream ?w1 (token_request ?w1)) = Some (Error ''ECONNRESET'')"
    by (simp add: exchange_error_def token_request_def demo_defs)
  have u2: "exchange_error ?w2 (upstream ?w2 (token_request ?w2)) =
      Some (Error ''Failed to get Kajabi access token'')"
    by (simp add: exchange_error_def token_request_def ok_def demo_defs)
  have u3: "exchange_error ?w3 (upstream ?w3 (token_request ?w3)) = Some (Error ''socket hang up'')"
    by (simp add: exchange_error_def token_request_def ok_def json_def bindE_def demo_defs)
  have k: "\<not> ok \<lparr>status = 401, body_text = Inr ''denied''\<rparr>"
    "ok \<lparr>status = 200, body_text = Inl (Error ''socket hang up'')\<rparr>"
    by (simp_all add: ok_def)
  show ?thesis
    using token_failure_keeps_cache [OF n1 u1] token_failure_keeps_cache [OF n2 u2]
      token_failure_keeps_cache [OF n3 u3] n1 k
    by (simp add: warm_state_def stale_state_def initial_state_def)
qed


subsection \<open>Methods\<close>

text \<open>
  C3. An \<open>OPTIONS\<close> request to the tagging handler or to the original relay handler is
  answered by the test for \<open>POST\<close>, which comes first: status 405 with the
  "Method not allowed" body and no CORS header.
\<close>

theorem options_rejected:
  "fst (handler w \<lparr>req_method = ''OPTIONS'', req_body = b\<rparr> s) =
     Inr \<lparr>res_status = 405, res_headers = [],
          res_body = Json (JObj [(''ok'', JBool False), (''error'', JStr ''Method not allowed'')])\<rparr> \<and>
   fst (relay_handler w \<lparr>req_method = ''OPTIONS'', req_body = b\<rparr> s) = Inr method_not_allowed"
  by (simp add: handler_def relay_handler_def ret_def res_defs out_defs)

subsection \<open>The relay\<close>

text \<open>
  C4. For a POST request, when the forward to the webhook resolves and its body can be
  read, the relay answers 200 with the body parsed as JSON, or with \<open>{message: text}\<close>
  when the text does not parse; the answer does not depend on the upstream status. When
  the forward or the reading of its body throws, the relay answers 500 with
  \<open>{error, details}\<close>, the details being the error's message. The FIXED variant answers a
  POST request as the original does.
\<close>

theorem relay_post:
  assumes "req_method req = ''POST''"
  shows "(\<forall>r t. upstream w (WebhookRequest (req_body req)) = Inr r \<and> body_text r = Inr t \<longrightarrow>
            fst (relay_handler w req s) =
              Inr (relayed (case JSON_parse w t of
                              Some v \<Rightarrow> v
                            | None \<Rightarrow> JObj [(''message'', JStr t)]))) \<and>
         (\<forall>e. upstream w (WebhookRequest (req_body req)) = Inl e \<or>
              (\<exists>r. upstream w (WebhookRequest (req_body req)) = Inr r \<and> body_text r = Inl e) \<longrightarrow>
            fst (relay_handler w req s) = Inr (relay_failed (message e))) \<and>
         fst (relay_handler_fixed w req s) = fst (relay_handler w req s)"
  using assms
  by (auto simp: relay_handler_def relay_handler_fixed_def prog_defs res_defs out_defs
      relayed_def relay_failed_def Let_def split: sum.splits option.splits)

theorem relay_post_witness:
  "fst (relay_handler happy_world (post (JObj [(''say'', JStr ''hi'')])) initial_state) =
     Inr \<lparr>res_status = 200, res_headers = cors_headers,
          res_body = Json (JObj [(''message'', JStr ''OK'')])\<rparr> \<and>
   upstream happy_world (WebhookRequest (JObj [(''say'', JStr ''hi'')])) =
     Inr \<lparr>status = 500, body_text = Inr ''OK''\<rparr> \<and>
   fst (relay_handler (demo_world (answer 200 token_text) (answer 200 tags_text) (answer 200 tags_text))
          (post JNull) initial_state) = Inr (relayed (JObj [(''data'', JArr [])])) \<and>
   fst (relay_handler (demo_world (answer 200 token_text) (answer 200 tags_text) (Inl (Error ''ECONNREFUSED'')))
          (post JNull) initial_state) = Inr (relay_failed ''ECONNREFUSED'') \<and>
   fst (relay_handler_fixed happy_world (post (JObj [(''say'', JStr ''hi'')])) initial_state) =
     Inr (relayed (JObj [(''message'', JStr ''OK'')]))"
proof -
  let ?b = "JObj [(''say'', JStr ''hi'')]"
  let ?w2 = "demo_world (answer 200 token_text) (answer 200 tags_text) (answer 200 tags_text)"
  let ?w3 = "demo_world (answer 200 token_text) (answer 200 tags_text) (Inl (Error ''ECONNREFUSED''))"
  have m: "req_method (post b) = ''POST''" for b by (simp add: post_def)
  have b: "req_body (post b) = b" for b by (simp add: post_def)
  have u1: "upstream happy_world (WebhookRequest ?b) = Inr \<lparr>status = 500, body_text = Inr ''OK''\<rparr>"
    by (simp add: demo_defs)
  have p1: "JSON_parse happy_world ''OK'' = None" by (simp add: demo_defs)
  have u2: "upstream ?w2 (WebhookRequest JNull) = Inr \<lparr>status = 200, body_text = Inr tags_text\<rparr>"
    by (simp add: demo_defs)
  have p2: "JSON_parse ?w2 tags_text = Some (JObj [(''data'', JArr [])])" by (simp add: demo_defs)
  have u3: "upstream ?w3 (WebhookRequest JNull) = Inl (Error ''ECONNREFUSED'')"
    by (simp add: demo_defs)
  show ?thesis
    using relay_post [OF m, of happy_world ?b initial_state]
      relay_post [OF m, of ?w2 JNull initial_state]
      relay_post [OF m, of ?w3 JNull initial_state]
      u1 p1 u2 p2 u3
    by (simp add: b relayed_def)
qed

text \<open>
  C8, as stated, fails: a GET request gets the three CORS headers from the FIXED variant
  and none from the original.
\<close>

theorem relay_variants_differ_on_get:
  "fst (relay_handler happy_world \<lparr>req_method = ''GET'', req_body = JUndefined\<rparr> initial_state) =
     Inr \<lparr>res_status = 405, res_headers = [],
          res_body = Json (JObj [(''error'', JStr ''Method not allowed'')])\<rparr> \<and>
   fst (relay_handler_fixed happy_world \<lparr>req_method = ''GET'', req_body = JUndefined\<rparr> initial_state) =
     Inr \<lparr>res_status = 405, res_headers = cors_headers,
          res_body = Json (JObj [(''error'', JStr ''Method not allowed'')])\<rparr> \<and>
   relay_handler happy_world \<lparr>req_method = ''GET'', req_body = JUndefined\<rparr> initial_state \<noteq>
   relay_handler_fixed happy_world \<lparr>req_method = ''GET'', req_body = JUndefined\<rparr> initial_state"
  by (simp add: relay_handler_def relay_handler_fixed_def ret_def res_defs out_defs Let_def)

text \<open>
  C8, amended. The two relay variants give the same response and make the same upstream
  call for every POST request. For every request whose method is neither POST nor OPTIONS
  both answer 405 with the same body and make no upstream call; the FIXED variant sends
  the three CORS headers with it, the original sends none. For OPTIONS the original
  answers 405 without CORS headers and the FIXED variant 200 with an empty body and the
  CORS headers.
\<close>

theorem relay_variants:
  "(req_method req = ''POST'' \<longrightarrow> relay_handler w req s = relay_handler_fixed w req s) \<and>
   (req_method req \<noteq> ''POST'' \<and> req_method req \<noteq> ''OPTIONS'' \<longrightarrow>
      relay_handler w req s = (Inr method_not_allowed, s) \<and>
      relay_handler_fixed w req s =
        (Inr (method_not_allowed\<lparr>res_headers := cors_headers\<rparr>), s)) \<and>
   (req_method req = ''OPTIONS'' \<longrightarrow>
      relay_handler w req s = (Inr method_not_allowed, s) \<and>
      relay_handler_fixed w req s =
        (Inr \<lparr>res_status = 200, res_headers = cors_headers, res_body = Ended\<rparr>, s))"
  by (auto simp: relay_handler_def relay_handler_fixed_def prog_defs res_defs out_defs Let_def
      split: sum.splits option.splits)

theorem relay_variants_witness:
  "relay_handler happy_world (post JNull) initial_state =
     relay_handler_fixed happy_world (post JNull) initial_state \<and>
   relay_handler happy_world \<lparr>req_method = ''PUT'', req_body = JNull\<rparr> initial_state =
     (Inr method_not_allowed, initial_state) \<and>
   relay_handler_fixed happy_world \<lparr>req_method = ''PUT'', req_body = JNull\<rparr> initial_state =
     (Inr (method_not_allowed\<lparr>res_headers := cors_headers\<rparr>), initial_state) \<and>
   relay_handler happy_world \<lparr>req_method = ''OPTIONS'', req_body = JNull\<rparr> initial_state =
     (Inr method_not_allowed, initial_state) \<and>
   relay_handler_fixed happy_world \<lparr>req_method = ''OPTIONS'', req_body = JNull\<rparr> initial_state =
     (Inr \<lparr>res_status = 200, res_headers = cors_headers, res_body = Ended\<rparr>, initial_state)"
  using relay_variants [of "post JNull" happy_world initial_state]
    relay_variants [of "\<lparr>req_method = ''PUT'', req_body = JNull\<rparr>" happy_world initial_state]
    relay_variants [of "\<lparr>req_method = ''OPTIONS'', req_body = JNull\<rparr>" happy_world initial_state]
  by (simp add: post_def)

subsection \<open>The tagging handler: validation\<close>

lemma handler_catches: "\<exists>res. fst (handler w req s) = Inr res"
  by (auto simp: handler_def try_catch_def ret_def Let_def split: sum.splits prod.splits)

lemma handler_no_body:
  assumes "req_method req = ''POST''" and "req_body req = JUndefined"
  shows "handler w req s = (Inr server_error, s)"
  using assms by (simp add: handler_def tag_contact_def prog_defs res_defs out_defs)

lemma handler_no_includes:
  assumes "req_method req = ''POST''" and "get_prop (req_body req) ''email'' = Inr email"
    and "truthy email" and "\<forall>e. email \<noteq> JStr e" and "\<forall>xs. email \<noteq> JArr xs"
  shows "handler w req s = (Inr server_error, s)"
proof -
  have "\<exists>e. js_includes email ''@'' = Inl e"
    using assms(3,4,5) by (cases email) auto
  moreover have "\<exists>t. get_prop (req_body req) ''tag'' = Inr t"
    using assms(2) by (cases "req_body req") auto
  ultimately show ?thesis
    using assms(1,2,3)
    by (auto simp: handler_def tag_contact_def prog_defs res_defs out_defs)
qed

text \<open>
  C10. A POST request with no body, or with an email member that is truthy and is neither
  a string nor an array (the values that have an \<open>includes\<close> method), is answered 500 with
  \<open>{ok: false, error: 'Server error'}\<close>, with no upstream call and no change of the cache;
  and no request at all makes the handler throw.
\<close>

theorem malformed_body_is_server_error:
  "(req_method req = ''POST'' \<and>
    (req_body req = JUndefined \<or>
     (\<exists>email. get_prop (req_body req) ''email'' = Inr email \<and> truthy email \<and>
        (\<forall>e. email \<noteq> JStr e) \<and> (\<forall>xs. email \<noteq> JArr xs))) \<longrightarrow>
      handler w req s = (Inr server_error, s)) \<and>
   (\<exists>res. fst (handler w req s) = Inr res)"
  using handler_catches handler_no_body handler_no_includes by blast

theorem malformed_body_is_server_error_witness:
  "handler happy_world (post JUndefined) initial_state = (Inr server_error, initial_state) \<and>
   get_prop (req_body (post (tag_body (JBool True) (JStr ''diy'')))) ''email'' = Inr (JBool True) \<and>
   truthy (JBool True) \<and>
   handler happy_world (post (tag_body (JBool True) (JStr ''diy''))) initial_state =
     (Inr server_error, initial_state) \<and>
   res_status server_error = 500"
proof -
  have m: "req_method (post b) = ''POST''" for b by (simp add: post_def)
  have b: "req_body (post JUndefined) = JUndefined" by (simp add: post_def)
  have g: "get_prop (req_body (post (tag_body (JBool True) (JStr ''diy'')))) ''email'' = Inr (JBool True)"
    by (simp add: post_def tag_body_def)
  show ?thesis
    using malformed_body_is_server_error [of "post JUndefined" happy_world initial_state]
      malformed_body_is_server_error [of "post (tag_body (JBool True) (JStr ''diy''))" happy_world initial_state]
      m b g
    by (auto simp: server_error_def)
qed



subsection \<open>The tagging handler: the four steps\<close>

lemma tag_contact_valid:
  assumes "valid_input w req email tagId"
  shows "tag_contact w req res =
           bind (getAccessToken w) (\<lambda>token.
             bind (findContactByEmail w token email) (\<lambda>found.
             bind (if \<not> truthy found
                   then bind (createContact w token email) (\<lambda>created.
                          lift (get_prop created ''data''))
                   else ret found) (\<lambda>contact.
             bind (lift (get_prop contact ''id'')) (\<lambda>contactId.
             bind (addTagToContact w token contactId tagId) (\<lambda>_.
             ret (send_json (JObj [(''ok'', JBool True)]) (set_status 200 res)))))))"
  using assms
  by (auto simp: valid_input_def tag_contact_def ret_def lift_def bind_def split: sum.splits)

lemma handler_valid:
  assumes "valid_input w req email tagId"
  shows "fst (handler w req s) =
           Inr (case first_failure w email tagId s of
                  None \<Rightarrow> tagged_ok
                | Some st \<Rightarrow> server_error)"
proof -
  have m: "req_method req = ''POST''"
    using assms by (simp add: valid_input_def)
  show ?thesis
    unfolding handler_def Let_def tag_contact_valid [OF assms] first_failure_def
    using m
    by (auto simp: ret_def lift_def bind_def try_catch_def res_defs out_defs
        split: sum.splits prod.splits)
qed






lemmas tagger_defs =
  handler_def tag_contact_def getAccessToken_def findContactByEmail_def createContact_def
  addTagToContact_def email_matches_def tagMap_def env_value_def lower_char_def
  token_request_def json_def ok_def object_prototype_keys_def js_string_def js_number_def
  Let_def



subsection \<open>Contact resolution\<close>

lemma calls_getAccessToken:
  "calls (snd (getAccessToken w s)) = calls s \<or>
   calls (snd (getAccessToken w s)) = calls s @ [token_request w]"
  by (auto simp: getAccessToken_def prog_defs split: sum.splits)

lemma calls_createContact:
  assumes "js_string w t = Inr bearer"
  shows "calls (snd (createContact w t e s)) =
           calls s @ [CreateRequest (KAJABI_SITE_ID (env w)) bearer e]"
  using assms by (auto simp: createContact_def prog_defs split: sum.splits)

lemma calls_addTagToContact:
  "calls (snd (addTagToContact w t c g s)) = calls s \<or>
   (\<exists>bearer cid. calls (snd (addTagToContact w t c g s)) = calls s @ [TagRequest bearer cid g])"
  by (auto simp: addTagToContact_def prog_defs split: sum.splits)

lemma exact_match_comparable: "exact_match email c \<Longrightarrow> comparable email c"
  by (auto simp: exact_match_def comparable_def split: jsval.splits option.splits)

lemma email_matches_exact:
  "comparable email c \<Longrightarrow> email_matches email c = Inr (exact_match email c)"
  by (auto simp: email_matches_def exact_match_def comparable_def contact_email_def bindE_def
      split: sum.splits jsval.splits)

lemma find_first_exact:
  "\<forall>c\<in>set (before_match email cs). comparable email c \<Longrightarrow>
   find_first (email_matches email) cs =
     Inr (case find (exact_match email) cs of Some c \<Rightarrow> c | None \<Rightarrow> JUndefined)"
proof (induction cs)
  case Nil
  then show ?case by simp
next
  case (Cons c cs)
  show ?case
  proof (cases "exact_match email c")
    case True
    then show ?thesis
      by (simp add: email_matches_exact exact_match_comparable)
  next
    case False
    then have "comparable email c" and "\<forall>c\<in>set (before_match email cs). comparable email c"
      using Cons.prems by (simp_all add: before_match_def)
    then show ?thesis
      using False Cons.IH by (simp add: email_matches_exact)
  qed
qed

lemma contact_truthy: "exact_match email c \<Longrightarrow> truthy c"
  by (cases c) (auto simp: exact_match_def contact_email_def split: jsval.splits)

lemma contact_has_id: "exact_match email c \<Longrightarrow> \<exists>i. get_prop c ''id'' = Inr i"
  by (cases c) (auto simp: exact_match_def contact_email_def split: jsval.splits)

lemma findContactByEmail_result:
  assumes "js_string w email = Inr search" and "js_string w token = Inr bearer"
    and "upstream w (SearchRequest (KAJABI_SITE_ID (env w)) bearer search) = Inr r"
    and "ok r" and "json w r = Inr data" and "get_prop data ''data'' = Inr (JArr cs)"
    and "\<forall>c\<in>set (before_match email cs). comparable email c"
  shows "findContactByEmail w token email s =
     (Inr (case find (exact_match email) cs of Some c \<Rightarrow> c | None \<Rightarrow> JNull),
      s\<lparr>calls := calls s @ [SearchRequest (KAJABI_SITE_ID (env w)) bearer search]\<rparr>)"
proof (cases "find (exact_match email) cs")
  case None
  then show ?thesis
    using assms
    by (simp add: findContactByEmail_def ret_def lift_def bind_def fetch_def find_first_exact)
next
  case (Some c)
  then have "exact_match email c" by (auto simp: find_Some_iff)
  then have "truthy c" by (rule contact_truthy)
  then show ?thesis
    using assms Some
    by (simp add: findContactByEmail_def ret_def lift_def bind_def fetch_def find_first_exact)
qed

text \<open>
  C2, as stated, fails: the search answers with one contact whose email is \<open>null\<close>, no
  returned contact equals the input email, and yet no contact is created: the comparison
  throws, the handler answers 500 and makes no call after the search.
\<close>

theorem unreadable_contact_blocks_creation:
  "upstream
     (staged_world (answer 200 token_text) (answer 200 nobody_text) (answer 201 created_text)
        (answer 200 tags_text) (answer 200 ''OK''))
     (SearchRequest (Some ''site'') ''abc'' ''anne2@x.com'') = answer 200 nobody_text \<and>
   JSON_parse
     (staged_world (answer 200 token_text) (answer 200 nobody_text) (answer 201 created_text)
        (answer 200 tags_text) (answer 200 ''OK''))
     nobody_text = Some (JObj [(''data'', JArr [nobody])]) \<and>
   \<not> exact_match (JStr ''anne2@x.com'') nobody \<and>
   handler
     (staged_world (answer 200 token_text) (answer 200 nobody_text) (answer 201 created_text)
        (answer 200 tags_text) (answer 200 ''OK''))
     (post (tag_body (JStr ''anne2@x.com'') (JStr ''diy''))) initial_state =
     (Inr server_error,
      \<lparr>cachedToken = JStr ''abc'', tokenExpiresAt = Some 7900000,
        calls = [TokenRequest (Some ''id'') (Some ''secret''),
                 SearchRequest (Some ''site'') ''abc'' ''anne2@x.com''],
        ticks = 1\<rparr>)"
  by (simp add: tagger_defs prog_defs num_defs demo_defs res_defs out_defs exact_match_def
      contact_email_def)

text \<open>
  C2, amended. Let a request pass validation, let the token be acquired, and let the
  search answer with a result set in which every contact that comes before the first exact
  match can be compared with the input: the contact carries a string email and the input
  email is a string. Then \<open>findContactByEmail\<close> selects the first returned contact whose
  email equals the input email after lower-casing both, and \<open>null\<close> when there is none
  (so \<open>anne@x.com\<close> returned for \<open>anne2@x.com\<close> is no match); and the handler calls the
  upstream contact creation if and only if no returned contact matches in this way.
\<close>

theorem contact_resolution:
  assumes v: "valid_input w req email tagId"
    and t: "getAccessToken w s = (Inr token, s1)"
    and c: "js_string w email = Inr search" "js_string w token = Inr bearer"
    and u: "upstream w (SearchRequest (KAJABI_SITE_ID (env w)) bearer search) = Inr r"
      "ok r" "json w r = Inr data" "get_prop data ''data'' = Inr (JArr cs)"
    and m: "\<forall>c\<in>set (before_match email cs). comparable email c"
  shows "fst (findContactByEmail w token email s1) =
           Inr (case find (exact_match email) cs of Some c \<Rightarrow> c | None \<Rightarrow> JNull) \<and>
         (CreateRequest (KAJABI_SITE_ID (env w)) bearer email
            \<in> set (calls_made (handler w req) s)
          \<longleftrightarrow> \<not> (\<exists>c\<in>set cs. exact_match email c))"
proof -
  let ?search = "SearchRequest (KAJABI_SITE_ID (env w)) bearer search"
  let ?create = "CreateRequest (KAJABI_SITE_ID (env w)) bearer email"
  let ?s2 = "s1\<lparr>calls := calls s1 @ [?search]\<rparr>"
  have f: "findContactByEmail w token email s1 =
     (Inr (case find (exact_match email) cs of Some c \<Rightarrow> c | None \<Rightarrow> JNull), ?s2)"
    by (rule findContactByEmail_result [OF c u m])
  have pm: "req_method req = ''POST''"
    using v by (simp add: valid_input_def)
  have c1: "calls s1 = calls s \<or> calls s1 = calls s @ [token_request w]"
    using calls_getAccessToken [of w s] t by simp
  then obtain zs where zs: "calls s1 = calls s @ zs" and nz: "?create \<notin> set zs"
    by (auto simp: token_request_def)
  have h: "handler w req s =
      try_catch (bind (getAccessToken w) (\<lambda>token.
             bind (findContactByEmail w token email) (\<lambda>found.
             bind (if \<not> truthy found
                   then bind (createContact w token email) (\<lambda>created.
                          lift (get_prop created ''data''))
                   else ret found) (\<lambda>contact.
             bind (lift (get_prop contact ''id'')) (\<lambda>contactId.
             bind (addTagToContact w token contactId tagId) (\<lambda>_.
             ret (send_json (JObj [(''ok'', JBool True)]) (set_status 200 (cors fresh_res)))))))))
        (\<lambda>error. ret (send_json (fail_body ''Server error'') (set_status 500 (cors fresh_res)))) s"
    using pm by (simp add: handler_def Let_def tag_contact_valid [OF v])
  show ?thesis
  proof (cases "find (exact_match email) cs")
    case None
    then have nm: "\<not> (\<exists>c\<in>set cs. exact_match email c)"
      by (auto simp: find_None_iff)
    obtain cr s3 where cc: "createContact w token email ?s2 = (cr, s3)"
      by fastforce
    have s3: "calls s3 = calls ?s2 @ [?create]"
      using calls_createContact [OF c(2), of email ?s2] cc by simp
    have "\<exists>ys. calls (snd (handler w req s)) = calls s3 @ ys"
      unfolding h using t f None cc calls_addTagToContact [of w token _ tagId s3]
      apply (auto simp: try_catch_def bind_def ret_def lift_def split: sum.splits prod.splits)
      by (metis snd_conv append_Nil2)+
    then obtain ys where "calls (snd (handler w req s)) = calls s @ (zs @ [?search, ?create] @ ys)"
      using s3 zs by auto
    then have "calls_made (handler w req) s = zs @ [?search, ?create] @ ys"
      by (simp add: calls_made_def)
    then have "?create \<in> set (calls_made (handler w req) s)"
      by simp
    then show ?thesis
      using f nm None by simp
  next
    case (Some x)
    then have xin: "x \<in> set cs" and ex: "exact_match email x"
      by (auto simp: find_Some_iff)
    have tr: "truthy x"
      using ex by (rule contact_truthy)
    obtain i where i: "get_prop x ''id'' = Inr i"
      using ex contact_has_id by blast
    have "calls (snd (handler w req s)) = calls ?s2 \<or>
          (\<exists>b k. calls (snd (handler w req s)) = calls ?s2 @ [TagRequest b k tagId])"
      unfolding h using t f Some tr i calls_addTagToContact [of w token i tagId ?s2]
      by (auto simp: try_catch_def bind_def ret_def lift_def split: sum.splits prod.splits)
    then have "calls_made (handler w req) s = zs @ [?search] \<or>
          (\<exists>b k. calls_made (handler w req) s = zs @ [?search, TagRequest b k tagId])"
      using zs by (auto simp: calls_made_def)
    then have "?create \<notin> set (calls_made (handler w req) s)"
      using nz by auto
    then show ?thesis
      using f Some xin ex by auto
  qed
qed

theorem contact_resolution_witness:
  "valid_input happy_world (post (tag_body (JStr ''anne2@x.com'') (JStr ''diy'')))
     (JStr ''anne2@x.com'') (JStr ''102'') \<and>
   fst (getAccessToken happy_world initial_state) = Inr (JStr ''abc'') \<and>
   get_prop search_doc ''data'' = Inr (JArr [anne]) \<and>
   contact_email anne = Some ''anne@x.com'' \<and>
   \<not> exact_match (JStr ''anne2@x.com'') anne \<and>
   comparable (JStr ''anne2@x.com'') anne \<and>
   fst (findContactByEmail happy_world (JStr ''abc'') (JStr ''anne2@x.com'')
          (snd (getAccessToken happy_world initial_state))) = Inr JNull \<and>
   CreateRequest (Some ''site'') ''abc'' (JStr ''anne2@x.com'')
     \<in> set (calls_made (handler happy_world (post (tag_body (JStr ''anne2@x.com'') (JStr ''diy'')))) initial_state) \<and>
   exact_match (JStr ''Anne@X.com'') anne \<and>
   fst (findContactByEmail happy_world (JStr ''abc'') (JStr ''Anne@X.com'')
          (snd (getAccessToken happy_world initial_state))) = Inr anne \<and>
   CreateRequest (Some ''site'') ''abc'' (JStr ''Anne@X.com'')
     \<notin> set (calls_made (handler happy_world (post (tag_body (JStr ''Anne@X.com'') (JStr ''diy'')))) initial_state) \<and>
   map lower_char [CHR 0xC9, CHR 0xD7, CHR ''Z''] = [CHR 0xE9, CHR 0xD7, CHR ''z'']"
proof -
  let ?s1 = "snd (getAccessToken happy_world initial_state)"
  let ?r = "\<lparr>status = 200, body_text = Inr search_text\<rparr>"
  have v: "valid_input happy_world (post (tag_body (JStr e) (JStr ''diy''))) (JStr e) (JStr ''102'')"
    if "e = ''anne2@x.com'' \<or> e = ''Anne@X.com''" for e
    using that
    by (auto simp: valid_input_def tagMap_def env_value_def object_prototype_keys_def
        js_string_def demo_defs)
  have t1: "fst (getAccessToken happy_world initial_state) = Inr (JStr ''abc'')"
    by (simp add: getAccessToken_def token_request_def json_def ok_def js_number_def prog_defs
        num_defs demo_defs)
  then have t: "getAccessToken happy_world initial_state = (Inr (JStr ''abc''), ?s1)"
    by (simp add: prod_eq_iff)
  have c: "js_string happy_world (JStr e) = Inr e" for e
    by (simp add: js_string_def)
  have u: "upstream happy_world (SearchRequest (KAJABI_SITE_ID (env happy_world)) ''abc'' e) = Inr ?r"
    for e by (simp add: demo_defs)
  have k: "ok ?r" by (simp add: ok_def)
  have j: "json happy_world ?r = Inr search_doc"
    by (simp add: json_def bindE_def demo_defs)
  have d: "get_prop search_doc ''data'' = Inr (JArr [anne])"
    by (simp add: search_doc_def)
  have ce: "contact_email anne = Some ''anne@x.com''"
    by (simp add: contact_email_def anne_def)
  have cm: "comparable (JStr e) anne" for e
    by (simp add: comparable_def ce)
  have a: "\<forall>c\<in>set (before_match (JStr e) [anne]). comparable (JStr e) c" for e
    by (simp add: before_match_def cm)
  have x1: "\<not> exact_match (JStr ''anne2@x.com'') anne"
    by (simp add: exact_match_def ce)
  have x2: "exact_match (JStr ''Anne@X.com'') anne"
    by (simp add: exact_match_def ce lower_char_def char_of_def bit_0)
  have l: "map lower_char [CHR 0xC9, CHR 0xD7, CHR ''Z''] = [CHR 0xE9, CHR 0xD7, CHR ''z'']"
    by (simp add: lower_char_def char_of_def bit_0)
  have site: "KAJABI_SITE_ID (env happy_world) = Some ''site''"
    by (simp add: demo_defs)
  show ?thesis
    using contact_resolution [OF v t c c u k j d a, of "''anne2@x.com''"]
      contact_resolution [OF v t c c u k j d a, of "''Anne@X.com''"]
      v [of "''anne2@x.com''"] t1 d ce cm x1 x2 l site
    by simp
qed


subsection \<open>The tagging handler: email and tag\<close>

lemma starts_with_at: "starts_with s ''@'' \<longleftrightarrow> (\<exists>cs. s = CHR ''@'' # cs)"
  by (cases s) auto

lemma str_includes_at: "str_includes s ''@'' \<longleftrightarrow> CHR ''@'' \<in> set s"
  by (induction s) (auto simp: starts_with_at)

lemma tag_readable:
  assumes "get_prop (req_body req) ''email'' = Inr email"
  shows "\<exists>tag. get_prop (req_body req) ''tag'' = Inr tag"
  using assms by (cases "req_body req") auto

lemma handler_bad_email:
  assumes "req_method req = ''POST''" and "get_prop (req_body req) ''email'' = Inr email"
    and "\<not> truthy email \<or> js_includes email ''@'' = Inr False"
  shows "handler w req s = (Inr email_required, s)"
  using assms tag_readable [OF assms(2)]
  by (auto simp: handler_def tag_contact_def prog_defs res_defs out_defs)

lemma handler_bad_key:
  assumes "req_method req = ''POST''" and "get_prop (req_body req) ''email'' = Inr email"
    and "truthy email" and "js_includes email ''@'' = Inr True"
    and "get_prop (req_body req) ''tag'' = Inr tag" and "js_string w tag = Inl e"
  shows "handler w req s = (Inr server_error, s)"
  using assms
  by (auto simp: handler_def tag_contact_def prog_defs res_defs out_defs)

lemma handler_bad_tag:
  assumes "req_method req = ''POST''" and "get_prop (req_body req) ''email'' = Inr email"
    and "truthy email" and "js_includes email ''@'' = Inr True"
    and "get_prop (req_body req) ''tag'' = Inr tag" and "js_string w tag = Inr key"
    and "get_prop (tagMap (env w)) key = Inr tagId" and "\<not> truthy tagId"
  shows "handler w req s = (Inr invalid_tag, s)"
  using assms
  by (auto simp: handler_def tag_contact_def prog_defs res_defs out_defs)

text \<open>
  C5, as stated, fails. The email is validated first, so a request with an unrecognised
  tag and no email is answered with the email message; and a tag that cannot be converted
  to a property key (an object with a \<open>toString\<close> member of its own) makes \<open>tagMap[tag]\<close>
  throw, so the request is answered 500.
\<close>

theorem bogus_tag_without_email:
  "fst (handler happy_world (post (JObj [(''tag'', JStr ''bogus'')])) initial_state) =
     Inr email_required \<and>
   fst (handler happy_world (post (JObj [(''tag'', JStr ''bogus'')])) initial_state) \<noteq>
     Inr invalid_tag \<and>
   handler happy_world
     (post (tag_body (JStr ''anne2@x.com'') (JObj [(''toString'', JNum 1)]))) initial_state =
     (Inr server_error, initial_state) \<and>
   server_error \<noteq> invalid_tag"
  by (simp add: handler_def tag_contact_def prog_defs res_defs out_defs demo_defs Let_def
      js_string_def object_prototype_keys_def)

text \<open>
  C5, amended. For every POST request whose email passes validation and whose tag converts
  to a property key that is none of \<open>contractor\<close>, \<open>diy\<close>, \<open>waitlist\<close> and none of the
  member names every object inherits, the response is 400 with
  \<open>{ok: false, error: 'Invalid tag. Must be: contractor, diy, or waitlist'}\<close>, no upstream
  call is made and the state is unchanged.
\<close>

theorem unrecognised_tag_rejected:
  assumes "req_method req = ''POST''" and "get_prop (req_body req) ''email'' = Inr email"
    and "truthy email" and "js_includes email ''@'' = Inr True"
    and "get_prop (req_body req) ''tag'' = Inr tag" and "js_string w tag = Inr key"
    and "key \<notin> {''contractor'', ''diy'', ''waitlist''}"
    and "key \<notin> set object_prototype_keys"
  shows "handler w req s = (Inr invalid_tag, s) \<and> calls_made (handler w req) s = []"
proof -
  have "get_prop (tagMap (env w)) key = Inr JUndefined"
    using assms(7,8) by (simp add: tagMap_def)
  then have "handler w req s = (Inr invalid_tag, s)"
    using handler_bad_tag [OF assms(1-6), of JUndefined s] by simp
  then show ?thesis
    by (simp add: calls_made_def)
qed

theorem unrecognised_tag_rejected_witness:
  "get_prop (req_body (post (tag_body (JStr ''anne2@x.com'') (JStr ''bogus'')))) ''email'' =
     Inr (JStr ''anne2@x.com'') \<and>
   js_includes (JStr ''anne2@x.com'') ''@'' = Inr True \<and>
   js_string happy_world (JStr ''bogus'') = Inr ''bogus'' \<and>
   handler happy_world (post (tag_body (JStr ''anne2@x.com'') (JStr ''bogus''))) initial_state =
     (Inr invalid_tag, initial_state) \<and>
   calls_made (handler happy_world (post (tag_body (JStr ''anne2@x.com'') (JStr ''bogus'')))) initial_state = [] \<and>
   js_string happy_world (JArr [JNum 7]) = Inr ''7'' \<and>
   handler happy_world (post (tag_body (JStr ''anne2@x.com'') (JArr [JNum 7]))) initial_state =
     (Inr invalid_tag, initial_state)"
proof -
  let ?req = "post (tag_body (JStr ''anne2@x.com'') (JStr ''bogus''))"
  let ?req' = "post (tag_body (JStr ''anne2@x.com'') (JArr [JNum 7]))"
  have m: "req_method (post b) = ''POST''" for b by (simp add: post_def)
  have e: "get_prop (req_body (post (tag_body (JStr ''anne2@x.com'') t))) ''email'' =
      Inr (JStr ''anne2@x.com'')" for t
    by (simp add: post_def tag_body_def)
  have t: "get_prop (req_body (post (tag_body (JStr ''anne2@x.com'') t))) ''tag'' = Inr t" for t
    by (simp add: post_def tag_body_def)
  have tr: "truthy (JStr ''anne2@x.com'')" by simp
  have i: "js_includes (JStr ''anne2@x.com'') ''@'' = Inr True" by simp
  have k: "js_string happy_world (JStr ''bogus'') = Inr ''bogus''"
    by (simp add: js_string_def)
  have k': "js_string happy_world (JArr [JNum 7]) = Inr ''7''"
    by (simp add: js_string_def demo_defs int_to_dec_def char_of_def bit_0)
  have k1: "''bogus'' \<notin> {''contractor'', ''diy'', ''waitlist''}"
    "''7'' \<notin> {''contractor'', ''diy'', ''waitlist''}" by simp_all
  have k2: "''bogus'' \<notin> set object_prototype_keys" "''7'' \<notin> set object_prototype_keys"
    by (simp_all add: object_prototype_keys_def)
  show ?thesis
    using unrecognised_tag_rejected [OF m e tr i t k k1(1) k2(1), of initial_state]
      unrecognised_tag_rejected [OF m e tr i t k' k1(2) k2(2), of initial_state] e i k k'
    by simp
qed

text \<open>
  C6, as stated, fails: with no body at all, or with an email member that is a number,
  the email test throws and the response is 500, not 400.
\<close>

theorem email_test_throws:
  "fst (handler happy_world (post JUndefined) initial_state) = Inr server_error \<and>
   fst (handler happy_world (post (tag_body (JNum 5) (JStr ''diy''))) initial_state) =
     Inr server_error \<and>
   res_status server_error = 500 \<and>
   res_status email_required = 400"
  by (simp add: handler_def tag_contact_def prog_defs res_defs out_defs post_def tag_body_def
      Let_def object_prototype_keys_def)

lemma falsy_contains_no_at: "\<not> truthy email \<Longrightarrow> \<not> contains_at email"
  by (cases email) auto

lemma js_includes_contains_at:
  "has_includes email \<Longrightarrow> js_includes email ''@'' = Inr (contains_at email)"
  by (cases email) (auto simp: str_includes_at)

text \<open>
  C6, amended. For every POST request that has a body (not \<open>undefined\<close>, not \<open>null\<close>) and
  whose email member is falsy, a string or an array, the response is 400 with
  \<open>{ok: false, error: 'Valid email required'}\<close> if and only if the email member is missing
  or does not contain \<open>@\<close> (as a character of the string, as an element of the array).
\<close>

theorem email_required_iff:
  assumes m: "req_method req = ''POST''"
    and g: "get_prop (req_body req) ''email'' = Inr email"
    and e: "\<not> truthy email \<or> has_includes email"
  shows "fst (handler w req s) = Inr email_required \<longleftrightarrow> \<not> contains_at email"
proof (cases "truthy email")
  case False
  then have "handler w req s = (Inr email_required, s)"
    using handler_bad_email [OF m g] by simp
  then show ?thesis
    using False falsy_contains_no_at by simp
next
  case True
  then have inc: "js_includes email ''@'' = Inr (contains_at email)"
    using e js_includes_contains_at by blast
  show ?thesis
  proof (cases "contains_at email")
    case False
    then have "handler w req s = (Inr email_required, s)"
      using handler_bad_email [OF m g] inc by simp
    then show ?thesis using False by simp
  next
    case c: True
    then have inc': "js_includes email ''@'' = Inr True"
      using inc by simp
    obtain tag where tag: "get_prop (req_body req) ''tag'' = Inr tag"
      using tag_readable [OF g] by blast
    have "fst (handler w req s) \<noteq> Inr email_required"
    proof (cases "js_string w tag")
      case (Inl x)
      then have "handler w req s = (Inr server_error, s)"
        by (rule handler_bad_key [OF m g True inc' tag])
      then show ?thesis by (simp add: out_defs)
    next
      case (Inr key)
      obtain tagId where tagId: "get_prop (tagMap (env w)) key = Inr tagId"
        by (simp add: tagMap_def)
      show ?thesis
      proof (cases "truthy tagId")
        case False
        then have "handler w req s = (Inr invalid_tag, s)"
          by (rule handler_bad_tag [OF m g True inc' tag Inr tagId])
        then show ?thesis by (simp add: out_defs)
      next
        case t: True
        have "valid_input w req email tagId"
          using m g True inc' tag Inr tagId t by (simp add: valid_input_def)
        then have "fst (handler w req s) =
             Inr (case first_failure w email tagId s of
                    None \<Rightarrow> tagged_ok
                  | Some st \<Rightarrow> server_error)"
          by (rule handler_valid)
        then show ?thesis by (simp add: out_defs split: option.splits)
      qed
    qed
    then show ?thesis using c by simp
  qed
qed

theorem email_required_iff_witness:
  "fst (handler happy_world (post (JObj [(''tag'', JStr ''diy'')])) initial_state) =
     Inr email_required \<and>
   fst (handler happy_world (post (tag_body JNull (JStr ''diy''))) initial_state) =
     Inr email_required \<and>
   fst (handler happy_world (post (JStr ''hello'')) initial_state) = Inr email_required \<and>
   fst (handler happy_world (post (JArr [])) initial_state) = Inr email_required \<and>
   fst (handler happy_world (post (tag_body (JStr ''anne.x.com'') (JStr ''diy''))) initial_state) =
     Inr email_required \<and>
   contains_at (JStr ''anne2@x.com'') \<and>
   fst (handler happy_world (post (tag_body (JStr ''anne2@x.com'') (JStr ''diy''))) initial_state) \<noteq>
     Inr email_required"
proof -
  have m: "req_method (post b) = ''POST''" for b by (simp add: post_def)
  have g1: "get_prop (req_body (post (JObj [(''tag'', JStr ''diy'')]))) ''email'' = Inr JUndefined"
    by (simp add: post_def object_prototype_keys_def)
  have g2: "get_prop (req_body (post (tag_body x (JStr ''diy'')))) ''email'' = Inr x" for x
    by (simp add: post_def tag_body_def)
  have g3: "get_prop (req_body (post (JStr ''hello''))) ''email'' = Inr JUndefined"
    by (simp add: post_def)
  have g4: "get_prop (req_body (post (JArr []))) ''email'' = Inr JUndefined"
    by (simp add: post_def)
  have f: "\<not> truthy JUndefined \<or> has_includes JUndefined" "\<not> truthy JNull \<or> has_includes JNull"
    "\<not> truthy (JStr x) \<or> has_includes (JStr x)" for x
    by simp_all
  show ?thesis
    using email_required_iff [OF m g1 f(1), of happy_world initial_state]
      email_required_iff [OF m g2 [of JNull] f(2), of happy_world initial_state]
      email_required_iff [OF m g3 f(1), of happy_world initial_state]
      email_required_iff [OF m g4 f(1), of happy_world initial_state]
      email_required_iff [OF m g2 [of "JStr ''anne.x.com''"] f(3) [of "''anne.x.com''"],
        of happy_world initial_state]
      email_required_iff [OF m g2 [of "JStr ''anne2@x.com''"] f(3) [of "''anne2@x.com''"],
        of happy_world initial_state]
    by simp
qed

subsection \<open>Inherited member names as tags\<close>

text \<open>
  X1. A POST request whose email passes validation and whose tag converts to the name of a
  member that the tag map inherits from \<open>Object.prototype\<close> (\<open>constructor\<close>, \<open>toString\<close>,
  ...) passes the tag test: \<open>tagMap[tag]\<close> is that built-in, which is truthy. The handler
  then runs the four steps and answers 200 or 500, not 400.
\<close>

theorem inherited_tag_name_passes:
  assumes "req_method req = ''POST''" and "get_prop (req_body req) ''email'' = Inr email"
    and "truthy email" and "js_includes email ''@'' = Inr True"
    and "get_prop (req_body req) ''tag'' = Inr tag" and "js_string w tag = Inr key"
    and "key \<in> set object_prototype_keys"
  shows "valid_input w req email (JNative key) \<and>
         fst (handler w req s) \<noteq> Inr invalid_tag \<and>
         (fst (handler w req s) = Inr tagged_ok \<or> fst (handler w req s) = Inr server_error)"
proof -
  have "get_prop (tagMap (env w)) key = Inr (JNative key)"
    using assms(7) by (auto simp: tagMap_def object_prototype_keys_def)
  then have v: "valid_input w req email (JNative key)"
    using assms(1-6) by (simp add: valid_input_def)
  have "fst (handler w req s) =
           Inr (case first_failure w email (JNative key) s of
                  None \<Rightarrow> tagged_ok
                | Some st \<Rightarrow> server_error)"
    using v by (rule handler_valid)
  then show ?thesis
    using v by (auto simp: out_defs split: option.splits)
qed

theorem inherited_tag_name_passes_witness:
  "''constructor'' \<in> set object_prototype_keys \<and>
   valid_input happy_world (post (tag_body (JStr ''anne2@x.com'') (JStr ''constructor'')))
     (JStr ''anne2@x.com'') (JNative ''constructor'') \<and>
   fst (handler happy_world (post (tag_body (JStr ''anne2@x.com'') (JStr ''constructor''))) initial_state) =
     Inr tagged_ok \<and>
   TagRequest ''abc'' ''c2'' (JNative ''constructor'') \<in>
     set (calls (snd (handler happy_world (post (tag_body (JStr ''anne2@x.com'') (JStr ''constructor'')))
       initial_state)))"
proof -
  let ?req = "post (tag_body (JStr ''anne2@x.com'') (JStr ''constructor''))"
  have m: "req_method ?req = ''POST''" by (simp add: post_def)
  have e: "get_prop (req_body ?req) ''email'' = Inr (JStr ''anne2@x.com'')"
    by (simp add: post_def tag_body_def)
  have t: "get_prop (req_body ?req) ''tag'' = Inr (JStr ''constructor'')"
    by (simp add: post_def tag_body_def)
  have tr: "truthy (JStr ''anne2@x.com'')" by simp
  have i: "js_includes (JStr ''anne2@x.com'') ''@'' = Inr True" by simp
  have c: "js_string happy_world (JStr ''constructor'') = Inr ''constructor''"
    by (simp add: js_string_def)
  have k: "''constructor'' \<in> set object_prototype_keys"
    by (simp add: object_prototype_keys_def)
  have h: "handler happy_world ?req initial_state =
     (Inr tagged_ok, \<lparr>cachedToken = JStr ''abc'', tokenExpiresAt = Some 7900000,
      calls = [TokenRequest (Some ''id'') (Some ''secret''),
               SearchRequest (Some ''site'') ''abc'' ''anne2@x.com'',
               CreateRequest (Some ''site'') ''abc'' (JStr ''anne2@x.com''),
               TagRequest ''abc'' ''c2'' (JNative ''constructor'')], ticks = 1\<rparr>)"
    by (simp add: tagger_defs prog_defs num_defs demo_defs res_defs out_defs)
  show ?thesis
    using inherited_tag_name_passes [OF m e tr i t c k, of initial_state] k h
    by simp
qed


end
